theory Spec2Isabelle
  imports Complex_Main
begin

section \<open>Errors and small helpers\<close>

text \<open>
  The exceptions that can leave \<open>ingest_data.py\<close>: the ones pandas raises while reading
  and converting (\<open>ParserError\<close>, \<open>EmptyDataError\<close>, \<open>OSError\<close>, \<open>ValueError\<close>) and the
  ones psycopg2 raises for the SQL it is handed (\<open>DataError\<close> for a value the column type
  refuses, \<open>UndefinedTable\<close>, \<open>UndefinedColumn\<close>, \<open>DuplicateTable\<close>, \<open>OperationalError\<close>
  for a lost connection or a server-side failure). \<open>Unmodelled\<close> is not an exception: it is
  what the model of the database answers to a query text it does not read, where
  Postgres may run the query or raise.
\<close>

datatype error =
    ParserError | EmptyDataError | OSError | ValueError
  | DataError | UndefinedTable | UndefinedColumn | DuplicateTable | OperationalError
  | Unmodelled

text \<open>A Python list comprehension over calls that may raise: the first exception wins.\<close>

fun collect :: "('e + 'a) list \<Rightarrow> 'e + 'a list" where
  "collect [] = Inr []"
| "collect (x # xs) =
     (case x of
        Inl e \<Rightarrow> Inl e
      | Inr v \<Rightarrow> (case collect xs of Inl e \<Rightarrow> Inl e | Inr vs \<Rightarrow> Inr (v # vs)))"

text \<open>\<open>str.endswith\<close>.\<close>

definition endswith :: "string \<Rightarrow> string \<Rightarrow> bool" where
  "endswith s suf \<longleftrightarrow> length suf \<le> length s \<and> drop (length s - length suf) s = suf"

text \<open>\<open>str.rfind\<close> for one character; \<open>None\<close> stands for Python's \<open>-1\<close>.\<close>

fun rfind :: "char \<Rightarrow> string \<Rightarrow> nat option" where
  "rfind c [] = None"
| "rfind c (x # xs) =
     (case rfind c xs of
        Some i \<Rightarrow> Some (Suc i)
      | None \<Rightarrow> if x = c then Some 0 else None)"

text \<open>
  \<open>pathlib.Path(file).stem\<close> for a bare file name, as \<open>os.listdir\<close> returns them: the
  name up to its last dot, unless that dot is the first or the last character.
\<close>

definition stem :: "string \<Rightarrow> string" where
  "stem name =
     (case rfind (CHR ''.'') name of
        None \<Rightarrow> name
      | Some i \<Rightarrow> if 0 < i \<and> i < length name - 1 then take i name else name)"

section \<open>The record parser and the deduplicator\<close>

text \<open>
  What the ingestion reads from outside the program: the directory listing, in whatever
  order \<open>os.listdir\<close> gives it, and for each file what \<open>pd.read_csv(..., sep='\t', names=cols)\<close>
  returns, a list of rows or the exception it raises. Both are parameters of the model;
  \<open>'r\<close> is the row type of the declared columns.
\<close>

record 'r env =
  listdir :: "string list"
  read_csv :: "string \<Rightarrow> error + 'r list"

text \<open>The two column schemas, \<open>WX_COLS\<close> and \<open>YLD_COLS\<close>.\<close>

record wx_csv =
  DATE :: int
  MAX_TEMP_1_10_DEG_C :: int
  MIN_TEMP_1_10_DEG_C :: int
  PRECIPITATION_1_10_MM :: int

record yld_csv =
  YEAR :: int
  TOTAL_CORN_GRAIN_YIELD_MT :: int

text \<open>
  \<open>ingest_data_helper\<close>: the rows of one file, each with the added \<open>FILE\<close> column (the
  second component of the pair) holding the stem of the file name.
\<close>

definition FILE :: "'r \<times> string \<Rightarrow> string" where
  "FILE row = snd row"

definition ingest_data_helper :: "'r env \<Rightarrow> string \<Rightarrow> error + ('r \<times> string) list" where
  "ingest_data_helper env file =
     (case read_csv env file of
        Inl e \<Rightarrow> Inl e
      | Inr df \<Rightarrow> Inr (map (\<lambda>r. (r, stem file)) df))"

text \<open>
  \<open>DataFrame.drop_duplicates(keys)\<close> with pandas' default \<open>keep='first'\<close>: of the rows that
  agree on the key columns the first one stays, and the order of the rows is kept.
\<close>

fun drop_duplicates :: "('r \<Rightarrow> 'k) \<Rightarrow> 'r list \<Rightarrow> 'r list" where
  "drop_duplicates keys [] = []"
| "drop_duplicates keys (r # rs) =
     r # drop_duplicates keys (filter (\<lambda>s. keys s \<noteq> keys r) rs)"

text \<open>
  Lines 45 to 47 of \<open>ingest_data\<close>: the \<open>.txt\<close> files of the listing in listing order, read
  one by one, concatenated (\<open>pd.concat\<close> raises \<open>ValueError\<close> on an empty list) and
  deduplicated on the key columns.
\<close>

definition file_list :: "'r env \<Rightarrow> string list" where
  "file_list env = filter (\<lambda>file. endswith file ''.txt'') (listdir env)"

definition concat_files :: "'r env \<Rightarrow> ('r \<times> string \<Rightarrow> 'k) \<Rightarrow> error + ('r \<times> string) list" where
  "concat_files env keys =
     (case collect (map (ingest_data_helper env) (file_list env)) of
        Inl e \<Rightarrow> Inl e
      | Inr dfs \<Rightarrow>
          if dfs = [] then Inl ValueError
          else Inr (drop_duplicates keys (concat dfs)))"

text \<open>The key columns: \<open>['FILE', 'DATE']\<close> for weather, \<open>['YEAR']\<close> for yield.\<close>

definition wx_keys :: "wx_csv \<times> string \<Rightarrow> string \<times> int" where
  "wx_keys row = (FILE row, DATE (fst row))"

definition yld_keys :: "yld_csv \<times> string \<Rightarrow> int" where
  "yld_keys row = YEAR (fst row)"

section \<open>The tables\<close>

datatype date = Date (year_of: int) (month_of: int) (day_of: int)

text \<open>
  The rows of \<open>wx_schema.wx_data\<close> and \<open>yld_schema.yld_data\<close>, with the column names as
  Postgres stores them. The primary key columns cannot be null, the others can.
\<close>

record wx_row =
  station_id :: string
  date :: date
  min_temp_1_10_deg_c :: "int option"
  max_temp_1_10_deg_c :: "int option"
  precipitation_1_10_mm :: "int option"

record yld_row =
  year :: int
  total_corn_grain_yield_mt :: "int option"

definition wx_pkey :: "wx_row \<Rightarrow> string \<times> date" where
  "wx_pkey r = (station_id r, date r)"

definition yld_pkey :: "yld_row \<Rightarrow> int" where
  "yld_pkey r = year r"

text \<open>
  What \<open>COPY\<close> does to one value on its way into a column: \<open>int4\<close> refuses a number out
  of range, \<open>varchar(n)\<close> refuses a string longer than \<open>n\<close> unless the excess is all
  spaces, which it cuts off.
\<close>

definition int4 :: "int \<Rightarrow> error + int" where
  "int4 v = (if - 2147483648 \<le> v \<and> v \<le> 2147483647 then Inr v else Inl DataError)"

definition int4_null :: "int option \<Rightarrow> error + int option" where
  "int4_null v =
     (case v of
        None \<Rightarrow> Inr None
      | Some i \<Rightarrow> (case int4 i of Inl e \<Rightarrow> Inl e | Inr j \<Rightarrow> Inr (Some j)))"

definition varchar :: "nat \<Rightarrow> string \<Rightarrow> error + string" where
  "varchar n s =
     (if length s \<le> n then Inr s
      else if list_all (\<lambda>c. c = CHR '' '') (drop n s) then Inr (take n s)
      else Inl DataError)"

definition copy_wx :: "wx_row \<Rightarrow> error + wx_row" where
  "copy_wx r =
     (case varchar 20 (station_id r) of Inl e \<Rightarrow> Inl e | Inr s \<Rightarrow>
      case int4_null (min_temp_1_10_deg_c r) of Inl e \<Rightarrow> Inl e | Inr lo \<Rightarrow>
      case int4_null (max_temp_1_10_deg_c r) of Inl e \<Rightarrow> Inl e | Inr hi \<Rightarrow>
      case int4_null (precipitation_1_10_mm r) of Inl e \<Rightarrow> Inl e | Inr p \<Rightarrow>
        Inr \<lparr>station_id = s, date = date r, min_temp_1_10_deg_c = lo,
             max_temp_1_10_deg_c = hi, precipitation_1_10_mm = p\<rparr>)"

definition copy_yld :: "yld_row \<Rightarrow> error + yld_row" where
  "copy_yld r =
     (case int4 (year r) of Inl e \<Rightarrow> Inl e | Inr y \<Rightarrow>
      case int4_null (total_corn_grain_yield_mt r) of Inl e \<Rightarrow> Inl e | Inr t \<Rightarrow>
        Inr \<lparr>year = y, total_corn_grain_yield_mt = t\<rparr>)"

section \<open>The merge-upsert loader\<close>

text \<open>
  \<open>INSERT INTO t SELECT * FROM tmp_table ON CONFLICT DO NOTHING\<close>: the staged rows are
  taken one after the other, and a row is appended unless a row with its primary key is
  already there, be it an old row or one the same statement has just inserted.
\<close>

definition insert_row :: "('r \<Rightarrow> 'k) \<Rightarrow> 'r \<Rightarrow> 'r list \<Rightarrow> 'r list" where
  "insert_row pkey r t = (if pkey r \<in> pkey ` set t then t else t @ [r])"

definition on_conflict_do_nothing :: "('r \<Rightarrow> 'k) \<Rightarrow> 'r list \<Rightarrow> 'r list \<Rightarrow> 'r list" where
  "on_conflict_do_nothing pkey t staged = fold (insert_row pkey) staged t"

text \<open>
  The statements \<open>upload_to_db\<close> sends in one string, and the session they run in:
  \<open>base\<close> is the table as committed (what every other session sees, and what is left
  when the transaction does not commit), \<open>pending\<close> is the table as the open transaction
  sees it, \<open>tmp_table\<close> the temporary table once it is created. \<open>LIKE ... INCLUDING
  DEFAULTS\<close> copies the column types and not the primary key, so the temporary table
  takes rows with equal keys.
\<close>

datatype 'r statement = BEGIN | CREATE_TEMP_TABLE | COPY "'r list" | INSERT_SELECT | COMMIT

record 'r session =
  base :: "'r list"
  pending :: "'r list"
  tmp_table :: "'r list option"

fun execute ::
  "('r \<Rightarrow> 'k) \<Rightarrow> ('r \<Rightarrow> error + 'r) \<Rightarrow> 'r statement \<Rightarrow> 'r session \<Rightarrow> error + 'r session"
where
  "execute pkey coerce BEGIN s = Inr s"
| "execute pkey coerce CREATE_TEMP_TABLE s =
     (case tmp_table s of
        None \<Rightarrow> Inr (s\<lparr>tmp_table := Some []\<rparr>)
      | Some _ \<Rightarrow> Inl DuplicateTable)"
| "execute pkey coerce (COPY df) s =
     (case tmp_table s of
        None \<Rightarrow> Inl UndefinedTable
      | Some rows \<Rightarrow>
          (case collect (map coerce df) of
             Inl e \<Rightarrow> Inl e
           | Inr staged \<Rightarrow> Inr (s\<lparr>tmp_table := Some (rows @ staged)\<rparr>)))"
| "execute pkey coerce INSERT_SELECT s =
     (case tmp_table s of
        None \<Rightarrow> Inl UndefinedTable
      | Some staged \<Rightarrow> Inr (s\<lparr>pending := on_conflict_do_nothing pkey (pending s) staged\<rparr>))"
| "execute pkey coerce COMMIT s = Inr (s\<lparr>base := pending s, tmp_table := None\<rparr>)"

text \<open>
  Running the statements in order. \<open>fault\<close> is the number of the statement at which the
  connection or the server fails, if any. A failure stops the run; the session it leaves
  is returned with the error, and its \<open>base\<close> is what the database keeps.
\<close>

fun run_script ::
  "('r \<Rightarrow> 'k) \<Rightarrow> ('r \<Rightarrow> error + 'r) \<Rightarrow> nat option \<Rightarrow> nat \<Rightarrow> 'r statement list \<Rightarrow>
     'r session \<Rightarrow> (error \<times> 'r session) + 'r session"
where
  "run_script pkey coerce fault i [] s = Inr s"
| "run_script pkey coerce fault i (st # sts) s =
     (if fault = Some i then Inl (OperationalError, s)
      else case execute pkey coerce st s of
             Inl e \<Rightarrow> Inl (e, s)
           | Inr s' \<Rightarrow> run_script pkey coerce fault (Suc i) sts s')"

text \<open>
  \<open>create_table\<close> with a \<open>CREATE TABLE IF NOT EXISTS\<close> query: a table is \<open>None\<close> while
  it does not exist.
\<close>

definition create_table :: "'r list option \<Rightarrow> 'r list option" where
  "create_table db = (case db of None \<Rightarrow> Some [] | Some rows \<Rightarrow> Some rows)"

text \<open>
  \<open>upload_to_db\<close>: the row count before, the script, the row count after. It returns the
  table it leaves and either the error or the logged number of rows added.
\<close>

definition upload_to_db ::
  "('r \<Rightarrow> 'k) \<Rightarrow> ('r \<Rightarrow> error + 'r) \<Rightarrow> nat option \<Rightarrow> 'r list option \<Rightarrow> 'r list \<Rightarrow>
     'r list option \<times> (error + int)"
where
  "upload_to_db pkey coerce fault db df =
     (case db of
        None \<Rightarrow> (None, Inl UndefinedTable)
      | Some rows \<Rightarrow>
          (let prev_count = int (length rows) in
           case run_script pkey coerce fault 0
                  [BEGIN, CREATE_TEMP_TABLE, COPY df, INSERT_SELECT, COMMIT]
                  \<lparr>base = rows, pending = rows, tmp_table = None\<rparr> of
             Inl (e, s) \<Rightarrow> (Some (base s), Inl e)
           | Inr s \<Rightarrow>
               (let new_count = int (length (base s))
                in (Some (base s), Inr (new_count - prev_count)))))"

section \<open>The two ingestions\<close>

text \<open>
  \<open>ingest_data\<close> branches once on \<open>self.table == 'wx_data'\<close>; the two branches are the two
  functions below. For weather the \<open>FILE\<close> column becomes \<open>STATION_ID\<close> and \<open>DATE\<close> goes
  through \<open>pd.to_datetime(..., format='%Y%m%d')\<close>, a parameter here: it gives a date or
  raises. For yield the \<open>FILE\<close> column is dropped.
\<close>

definition wx_frame :: "(int \<Rightarrow> error + date) \<Rightarrow> wx_csv \<times> string \<Rightarrow> error + wx_row" where
  "wx_frame to_datetime row =
     (case to_datetime (DATE (fst row)) of
        Inl e \<Rightarrow> Inl e
      | Inr d \<Rightarrow>
          Inr \<lparr>station_id = FILE row, date = d,
               min_temp_1_10_deg_c = Some (MIN_TEMP_1_10_DEG_C (fst row)),
               max_temp_1_10_deg_c = Some (MAX_TEMP_1_10_DEG_C (fst row)),
               precipitation_1_10_mm = Some (PRECIPITATION_1_10_MM (fst row))\<rparr>)"

definition yld_frame :: "yld_csv \<times> string \<Rightarrow> yld_row" where
  "yld_frame row =
     \<lparr>year = YEAR (fst row),
      total_corn_grain_yield_mt = Some (TOTAL_CORN_GRAIN_YIELD_MT (fst row))\<rparr>"

definition ingest_data_wx ::
  "wx_csv env \<Rightarrow> (int \<Rightarrow> error + date) \<Rightarrow> nat option \<Rightarrow> wx_row list option \<Rightarrow>
     wx_row list option \<times> (error + int)"
where
  "ingest_data_wx env to_datetime fault db =
     (case concat_files env wx_keys of
        Inl e \<Rightarrow> (db, Inl e)
      | Inr df \<Rightarrow>
          (case collect (map (wx_frame to_datetime) df) of
             Inl e \<Rightarrow> (db, Inl e)
           | Inr df' \<Rightarrow> upload_to_db wx_pkey copy_wx fault (create_table db) df'))"

definition ingest_data_yld ::
  "yld_csv env \<Rightarrow> nat option \<Rightarrow> yld_row list option \<Rightarrow> yld_row list option \<times> (error + int)"
where
  "ingest_data_yld env fault db =
     (case concat_files env yld_keys of
        Inl e \<Rightarrow> (db, Inl e)
      | Inr df \<Rightarrow> upload_to_db yld_pkey copy_yld fault (create_table db) (map yld_frame df))"

section \<open>The aggregate builder\<close>




text \<open>
  \<open>AVG\<close> of \<open>int4\<close> values is a \<open>numeric\<close>, \<open>SUM\<close> of \<open>int4\<close> values a \<open>bigint\<close>, and both
  are null over no values. \<open>numeric\<close> arithmetic is modelled exactly, on rationals:
  Postgres carries at least sixteen significant digits through a division, more than it
  takes to tell the mean of a group apart from a rounding boundary, since the primary
  key allows a station one row per day of the year. The \<open>bigint\<close> sum is modelled
  without its bound, which takes more than \<open>2 ^ 32\<close> rows to reach.
\<close>

definition mean :: "int list \<Rightarrow> rat" where
  "mean vs = of_int (sum_list vs) / of_int (int (length vs))"













section \<open>Sample inputs\<close>

text \<open>Two yield files that both report the year 2000, listed in two orders.\<close>

definition two_yield_files :: "string \<Rightarrow> error + yld_csv list" where
  "two_yield_files file =
     (if file = ''a.txt'' then Inr [\<lparr>YEAR = 2000, TOTAL_CORN_GRAIN_YIELD_MT = 1\<rparr>]
      else if file = ''b.txt'' then Inr [\<lparr>YEAR = 2000, TOTAL_CORN_GRAIN_YIELD_MT = 2\<rparr>]
      else Inl OSError)"

definition listing_ab :: "yld_csv env" where
  "listing_ab = \<lparr>listdir = [''a.txt'', ''b.txt'', ''notes.md''], read_csv = two_yield_files\<rparr>"

definition listing_ba :: "yld_csv env" where
  "listing_ba = \<lparr>listdir = [''notes.md'', ''b.txt'', ''a.txt''], read_csv = two_yield_files\<rparr>"

text \<open>
  One weather station with three days of 1985, the second day reported twice, and a
  reading of \<open>%Y%m%d\<close> for eight-digit numbers.
\<close>

definition station_file :: "string \<Rightarrow> error + wx_csv list" where
  "station_file file =
     (if file = ''USC00110072.txt'' then
        Inr [\<lparr>DATE = 19850101, MAX_TEMP_1_10_DEG_C = - 22, MIN_TEMP_1_10_DEG_C = - 128,
              PRECIPITATION_1_10_MM = 94\<rparr>,
             \<lparr>DATE = 19850102, MAX_TEMP_1_10_DEG_C = - 122, MIN_TEMP_1_10_DEG_C = - 217,
              PRECIPITATION_1_10_MM = 0\<rparr>,
             \<lparr>DATE = 19850102, MAX_TEMP_1_10_DEG_C = - 9999, MIN_TEMP_1_10_DEG_C = - 9999,
              PRECIPITATION_1_10_MM = - 9999\<rparr>,
             \<lparr>DATE = 19850103, MAX_TEMP_1_10_DEG_C = - 106, MIN_TEMP_1_10_DEG_C = - 9999,
              PRECIPITATION_1_10_MM = 120\<rparr>]
      else Inl OSError)"

definition one_station :: "wx_csv env" where
  "one_station = \<lparr>listdir = [''USC00110072.txt''], read_csv = station_file\<rparr>"

definition ymd :: "int \<Rightarrow> error + date" where
  "ymd n =
     (if 10000000 \<le> n \<and> n \<le> 99999999 \<and> 1 \<le> n div 100 mod 100 \<and> n div 100 mod 100 \<le> 12
         \<and> 1 \<le> n mod 100 \<and> n mod 100 \<le> 31
      then Inr (Date (n div 10000) (n div 100 mod 100) (n mod 100))
      else Inl ValueError)"

definition wx_1985 :: "wx_row list" where
  "wx_1985 =
     [\<lparr>station_id = ''USC00110072'', date = Date 1985 1 1, min_temp_1_10_deg_c = Some (- 128),
       max_temp_1_10_deg_c = Some (- 22), precipitation_1_10_mm = Some 94\<rparr>,
      \<lparr>station_id = ''USC00110072'', date = Date 1985 1 2, min_temp_1_10_deg_c = Some (- 217),
       max_temp_1_10_deg_c = Some (- 122), precipitation_1_10_mm = Some 0\<rparr>,
      \<lparr>station_id = ''USC00110072'', date = Date 1985 1 3, min_temp_1_10_deg_c = Some (- 9999),
       max_temp_1_10_deg_c = Some (- 106), precipitation_1_10_mm = Some 120\<rparr>]"




definition yld_sample :: "yld_row list" where
  "yld_sample =
     [\<lparr>year = 1999, total_corn_grain_yield_mt = Some 239549\<rparr>,
      \<lparr>year = 2000, total_corn_grain_yield_mt = Some 251854\<rparr>,
      \<lparr>year = 2001, total_corn_grain_yield_mt = Some 241377\<rparr>]"

section \<open>Lemmas on the deduplicator and the loader\<close>

lemma drop_duplicates_subset: "set (drop_duplicates keys xs) \<subseteq> set xs"
  by (induction keys xs rule: drop_duplicates.induct) auto

lemma drop_duplicates_keys: "keys ` set (drop_duplicates keys xs) = keys ` set xs"
proof (induction keys xs rule: drop_duplicates.induct)
  case (1 keys)
  then show ?case by simp
next
  case (2 keys r rs)
  have "keys ` set (filter (\<lambda>s. keys s \<noteq> keys r) rs) \<union> {keys r} = keys ` set rs \<union> {keys r}"
    by auto
  with 2 show ?case by auto
qed

lemma drop_duplicates_distinct: "distinct (map keys (drop_duplicates keys xs))"
proof (induction keys xs rule: drop_duplicates.induct)
  case (1 keys)
  then show ?case by simp
next
  case (2 keys r rs)
  have "keys r \<notin> keys ` set (drop_duplicates keys (filter (\<lambda>s. keys s \<noteq> keys r) rs))"
    using drop_duplicates_subset [of keys "filter (\<lambda>s. keys s \<noteq> keys r) rs"] by auto
  with 2 show ?case by simp
qed

lemma find_filter_other:
  "k \<noteq> k' \<Longrightarrow> find (\<lambda>s. keys s = k) (filter (\<lambda>s. keys s \<noteq> k') xs) = find (\<lambda>s. keys s = k) xs"
  by (induction xs) auto

lemma drop_duplicates_find:
  "find (\<lambda>s. keys s = k) (drop_duplicates keys xs) = find (\<lambda>s. keys s = k) xs"
proof (induction keys xs rule: drop_duplicates.induct)
  case (1 keys)
  then show ?case by simp
next
  case (2 keys r rs)
  then show ?case by (auto simp: find_filter_other)
qed

lemma insert_row_keys: "pkey ` set (insert_row pkey r t) = insert (pkey r) (pkey ` set t)"
  by (auto simp: insert_row_def)

lemma ocdn_keys: "pkey ` set (on_conflict_do_nothing pkey t staged) = pkey ` set t \<union> pkey ` set staged"
  unfolding on_conflict_do_nothing_def
  by (induction staged arbitrary: t) (auto simp: insert_row_keys)

lemma ocdn_noop:
  "pkey ` set staged \<subseteq> pkey ` set t \<Longrightarrow> on_conflict_do_nothing pkey t staged = t"
  unfolding on_conflict_do_nothing_def
  by (induction staged arbitrary: t) (auto simp: insert_row_def)

lemma ocdn_idem:
  "on_conflict_do_nothing pkey (on_conflict_do_nothing pkey t staged) staged = on_conflict_do_nothing pkey t staged"
  by (rule ocdn_noop) (simp add: ocdn_keys)

lemma ocdn_append:
  "\<exists>added. on_conflict_do_nothing pkey t staged = t @ added \<and> set added \<subseteq> set staged
     \<and> pkey ` set added \<inter> pkey ` set t = {} \<and> distinct (map pkey added)"
  unfolding on_conflict_do_nothing_def
proof (induction staged arbitrary: t)
  case Nil
  then show ?case by simp
next
  case (Cons r staged)
  show ?case
  proof (cases "pkey r \<in> pkey ` set t")
    case True
    then have "insert_row pkey r t = t" by (simp add: insert_row_def)
    with Cons [of t] show ?thesis by auto
  next
    case False
    then have eq: "insert_row pkey r t = t @ [r]" by (simp add: insert_row_def)
    from Cons [of "t @ [r]"] obtain added where
      a: "fold (insert_row pkey) staged (t @ [r]) = (t @ [r]) @ added"
      and b: "set added \<subseteq> set staged"
      and c: "pkey ` set added \<inter> pkey ` set (t @ [r]) = {}"
      and d: "distinct (map pkey added)" by blast
    have "fold (insert_row pkey) (r # staged) t = t @ (r # added)" using a eq by simp
    moreover have "set (r # added) \<subseteq> set (r # staged)" using b by auto
    moreover have "pkey ` set (r # added) \<inter> pkey ` set t = {}" using c False by auto
    moreover have "distinct (map pkey (r # added))" using c d by auto
    ultimately show ?thesis by blast
  qed
qed

lemma find_append_present:
  "k \<in> pkey ` set t \<Longrightarrow> find (\<lambda>s. pkey s = k) (t @ added) = find (\<lambda>s. pkey s = k) t"
  by (induction t) auto



lemma run_script_upload:
  "run_script pkey coerce fault 0 [BEGIN, CREATE_TEMP_TABLE, COPY df, INSERT_SELECT, COMMIT]
     \<lparr>base = rows, pending = rows, tmp_table = None\<rparr> =
   (if fault = Some 0 then Inl (OperationalError, \<lparr>base = rows, pending = rows, tmp_table = None\<rparr>)
    else if fault = Some 1 then Inl (OperationalError, \<lparr>base = rows, pending = rows, tmp_table = None\<rparr>)
    else if fault = Some 2 then Inl (OperationalError, \<lparr>base = rows, pending = rows, tmp_table = Some []\<rparr>)
    else case collect (map coerce df) of
      Inl e \<Rightarrow> Inl (e, \<lparr>base = rows, pending = rows, tmp_table = Some []\<rparr>)
    | Inr staged \<Rightarrow>
        if fault = Some 3 then Inl (OperationalError, \<lparr>base = rows, pending = rows, tmp_table = Some staged\<rparr>)
        else if fault = Some 4 then
          Inl (OperationalError, \<lparr>base = rows, pending = on_conflict_do_nothing pkey rows staged, tmp_table = Some staged\<rparr>)
        else Inr \<lparr>base = on_conflict_do_nothing pkey rows staged,
                  pending = on_conflict_do_nothing pkey rows staged, tmp_table = None\<rparr>)"
  by (simp add: numeral_eq_Suc split: sum.splits)

lemma upload_to_db_cases:
  "upload_to_db pkey coerce fault (Some rows) df =
   (if fault = Some 0 \<or> fault = Some 1 \<or> fault = Some 2 then (Some rows, Inl OperationalError)
    else case collect (map coerce df) of
      Inl e \<Rightarrow> (Some rows, Inl e)
    | Inr staged \<Rightarrow>
        if fault = Some 3 \<or> fault = Some 4 then (Some rows, Inl OperationalError)
        else (Some (on_conflict_do_nothing pkey rows staged),
              Inr (int (length (on_conflict_do_nothing pkey rows staged)) - int (length rows))))"
  unfolding upload_to_db_def run_script_upload
  by (simp split: sum.splits)

lemma upload_to_db_None: "upload_to_db pkey coerce fault None df = (None, Inl UndefinedTable)"
  by (simp add: upload_to_db_def)





lemma collect_Inr_iff: "collect xs = Inr ys \<longleftrightarrow> xs = map Inr ys"
proof (induction xs arbitrary: ys)
  case Nil
  then show ?case by auto
next
  case (Cons x xs)
  show ?case
  proof (cases x)
    case (Inl e)
    then show ?thesis by (cases ys) auto
  next
    case (Inr v)
    show ?thesis
    proof (cases "collect xs")
      case (Inl e)
      then have "\<And>zs. xs \<noteq> map Inr zs" using Cons.IH by auto
      then show ?thesis using Inr Inl by (cases ys) auto
    next
      case r: (Inr vs)
      then have "xs = map Inr vs" using Cons.IH by simp
      then show ?thesis using Inr r by (cases ys) auto
    qed
  qed
qed

lemma all_Inr_map: "(\<And>x. x \<in> set xs \<Longrightarrow> \<exists>y. x = Inr y) \<Longrightarrow> \<exists>ys. xs = map Inr ys"
proof (induction xs)
  case Nil
  then show ?case by simp
next
  case (Cons x xs)
  then obtain y where y: "x = Inr y" by auto
  from Cons obtain ys where "xs = map Inr ys" by auto
  then have "x # xs = map Inr (y # ys)" using y by simp
  then show ?case by (rule exI)
qed

lemma collect_succeeds_iff:
  "(\<exists>ys. collect xs = Inr ys) \<longleftrightarrow> (\<forall>x\<in>set xs. \<exists>y. x = Inr y)"
proof
  assume "\<exists>ys. collect xs = Inr ys"
  then obtain ys where "xs = map Inr ys" unfolding collect_Inr_iff by blast
  then show "\<forall>x\<in>set xs. \<exists>y. x = Inr y" by auto
next
  assume "\<forall>x\<in>set xs. \<exists>y. x = Inr y"
  then have "\<exists>ys. xs = map Inr ys" using all_Inr_map [of xs] by blast
  then show "\<exists>ys. collect xs = Inr ys" unfolding collect_Inr_iff .
qed

lemma collect_map_set:
  assumes "collect (map f xs) = Inr ys"
  shows "f ` set xs = Inr ` set ys"
proof -
  from assms have "map f xs = map Inr ys" by (simp add: collect_Inr_iff)
  then have "set (map f xs) = set (map Inr ys)" by simp
  then show ?thesis by simp
qed

lemma collect_map_member:
  assumes "collect (map f xs) = Inr ys" and "y \<in> set ys"
  shows "\<exists>x\<in>set xs. f x = Inr y"
proof -
  from assms(2) have "Inr y \<in> Inr ` set ys" by simp
  then have "Inr y \<in> f ` set xs" unfolding collect_map_set [OF assms(1)] .
  then show ?thesis by auto
qed

lemma collect_map_total:
  assumes "collect (map f xs) = Inr ys" and "x \<in> set xs"
  shows "\<exists>y\<in>set ys. f x = Inr y"
proof -
  from assms(2) have "f x \<in> f ` set xs" by simp
  then have "f x \<in> Inr ` set ys" unfolding collect_map_set [OF assms(1)] .
  then show ?thesis by auto
qed

lemma create_table_Some: "\<exists>rows. create_table db = Some rows"
  by (cases db) (simp_all add: create_table_def)

lemma create_table_idem: "create_table (Some rows) = Some rows"
  by (simp add: create_table_def)


lemma upload_to_db_early_fault:
  assumes "fault = Some 0 \<or> fault = Some 1 \<or> fault = Some 2"
  shows "upload_to_db pkey coerce fault (Some rows) df = (Some rows, Inl OperationalError)"
  unfolding upload_to_db_cases using assms by simp

lemma upload_to_db_copy_error:
  assumes "\<not> (fault = Some 0 \<or> fault = Some 1 \<or> fault = Some 2)"
    and "collect (map coerce df) = Inl e"
  shows "upload_to_db pkey coerce fault (Some rows) df = (Some rows, Inl e)"
  unfolding upload_to_db_cases using assms by simp

lemma upload_to_db_late_fault:
  assumes "\<not> (fault = Some 0 \<or> fault = Some 1 \<or> fault = Some 2)"
    and "collect (map coerce df) = Inr staged"
    and "fault = Some 3 \<or> fault = Some 4"
  shows "upload_to_db pkey coerce fault (Some rows) df = (Some rows, Inl OperationalError)"
  unfolding upload_to_db_cases using assms by simp

lemma upload_to_db_merged:
  assumes "\<not> (fault = Some 0 \<or> fault = Some 1 \<or> fault = Some 2)"
    and "collect (map coerce df) = Inr staged"
    and "\<not> (fault = Some 3 \<or> fault = Some 4)"
  shows "upload_to_db pkey coerce fault (Some rows) df
        = (Some (on_conflict_do_nothing pkey rows staged),
           Inr (int (length (on_conflict_do_nothing pkey rows staged)) - int (length rows)))"
  unfolding upload_to_db_cases using assms by simp

lemma upload_to_db_no_fault:
  assumes "collect (map coerce df) = Inr staged"
  shows "upload_to_db pkey coerce None (Some rows) df
        = (Some (on_conflict_do_nothing pkey rows staged),
           Inr (int (length (on_conflict_do_nothing pkey rows staged)) - int (length rows)))"
  using upload_to_db_merged [of None coerce df staged pkey rows] assms by simp

lemma upload_to_db_success:
  assumes "upload_to_db pkey coerce fault (Some rows) df = (db1, Inr n)"
  shows "\<exists>staged. collect (map coerce df) = Inr staged
           \<and> db1 = Some (on_conflict_do_nothing pkey rows staged)"
proof (cases "fault = Some 0 \<or> fault = Some 1 \<or> fault = Some 2")
  case True
  from upload_to_db_early_fault [OF True, of pkey coerce rows df] assms
  show ?thesis by simp
next
  case nf: False
  show ?thesis
  proof (cases "collect (map coerce df)")
    case (Inl e)
    from upload_to_db_copy_error [OF nf Inl, of pkey rows] assms
    show ?thesis by simp
  next
    case (Inr staged)
    show ?thesis
    proof (cases "fault = Some 3 \<or> fault = Some 4")
      case True
      from upload_to_db_late_fault [OF nf Inr True, of pkey rows] assms
      show ?thesis by simp
    next
      case False
      from upload_to_db_merged [OF nf Inr False, of pkey rows] assms Inr
      show ?thesis by simp
    qed
  qed
qed

lemma upload_twice:
  assumes "upload_to_db pkey coerce fault (create_table db) df = (db1, Inr n)"
  shows "upload_to_db pkey coerce None (create_table db1) df = (db1, Inr 0)"
proof -
  obtain rows where r: "create_table db = Some rows" using create_table_Some by blast
  from upload_to_db_success [OF assms [unfolded r]] obtain staged where
    st: "collect (map coerce df) = Inr staged" and
    d1: "db1 = Some (on_conflict_do_nothing pkey rows staged)" by blast
  have "upload_to_db pkey coerce None (Some (on_conflict_do_nothing pkey rows staged)) df
      = (Some (on_conflict_do_nothing pkey rows staged), Inr 0)"
    unfolding upload_to_db_no_fault [OF st] ocdn_idem by simp
  then show ?thesis unfolding d1 create_table_idem .
qed

lemma upload_present_keys:
  assumes "collect (map coerce df) = Inr staged" and "pkey ` set staged \<subseteq> pkey ` set rows"
  shows "upload_to_db pkey coerce None (Some rows) df = (Some rows, Inr 0)"
  unfolding upload_to_db_no_fault [OF assms(1)] ocdn_noop [OF assms(2)] by simp

lemma upload_to_db_appends:
  "\<exists>added. fst (upload_to_db pkey coerce fault (Some rows) df) = Some (rows @ added)
       \<and> pkey ` set added \<inter> pkey ` set rows = {}"
proof -
  have unchanged: "fst (upload_to_db pkey coerce fault (Some rows) df) = Some rows \<Longrightarrow> ?thesis"
  proof -
    assume "fst (upload_to_db pkey coerce fault (Some rows) df) = Some rows"
    then have "fst (upload_to_db pkey coerce fault (Some rows) df) = Some (rows @ [])
        \<and> pkey ` set [] \<inter> pkey ` set rows = {}" by simp
    then show ?thesis by (rule exI)
  qed
  show ?thesis
  proof (cases "fault = Some 0 \<or> fault = Some 1 \<or> fault = Some 2")
    case True
    show ?thesis
      by (rule unchanged) (simp add: upload_to_db_early_fault [OF True])
  next
    case nf: False
    show ?thesis
    proof (cases "collect (map coerce df)")
      case (Inl e)
      show ?thesis
        by (rule unchanged) (simp add: upload_to_db_copy_error [OF nf Inl])
    next
      case (Inr staged)
      show ?thesis
      proof (cases "fault = Some 3 \<or> fault = Some 4")
        case True
        show ?thesis
          by (rule unchanged) (simp add: upload_to_db_late_fault [OF nf Inr True])
      next
        case False
        obtain added where
          a: "on_conflict_do_nothing pkey rows staged = rows @ added"
          and b: "pkey ` set added \<inter> pkey ` set rows = {}"
          using ocdn_append [of pkey rows staged] by blast
        have "fst (upload_to_db pkey coerce fault (Some rows) df) = Some (rows @ added)
            \<and> pkey ` set added \<inter> pkey ` set rows = {}"
          using a b by (simp add: upload_to_db_merged [OF nf Inr False])
        then show ?thesis by (rule exI)
      qed
    qed
  qed
qed

lemma upload_to_db_error_unchanged:
  assumes "snd (upload_to_db pkey coerce fault (Some rows) df) = Inl e"
  shows "fst (upload_to_db pkey coerce fault (Some rows) df) = Some rows"
proof (cases "fault = Some 0 \<or> fault = Some 1 \<or> fault = Some 2")
  case True
  show ?thesis by (simp add: upload_to_db_early_fault [OF True])
next
  case nf: False
  show ?thesis
  proof (cases "collect (map coerce df)")
    case (Inl e')
    show ?thesis by (simp add: upload_to_db_copy_error [OF nf Inl])
  next
    case (Inr staged)
    show ?thesis
    proof (cases "fault = Some 3 \<or> fault = Some 4")
      case True
      show ?thesis by (simp add: upload_to_db_late_fault [OF nf Inr True])
    next
      case False
      from assms show ?thesis by (simp add: upload_to_db_merged [OF nf Inr False])
    qed
  qed
qed

section \<open>The claims on ingestion\<close>


text \<open>
  Claim C2, as amended. After \<open>drop_duplicates\<close> there is exactly one record per natural
  key, every key of the input is still there, and the record that stays for a key is
  the first one with that key in the order the parser produced, not the last.
\<close>

theorem drop_duplicates_first_wins:
  "distinct (map keys (drop_duplicates keys df))
   \<and> keys ` set (drop_duplicates keys df) = keys ` set df
   \<and> (\<forall>k. find (\<lambda>r. keys r = k) (drop_duplicates keys df) = find (\<lambda>r. keys r = k) df)"
  by (simp add: drop_duplicates_distinct drop_duplicates_keys drop_duplicates_find)

text \<open>
  Claim C2 as stated fails: of two records with the same natural key and different
  payloads the first one survives and the last-seen one is dropped, for yield (key
  \<open>YEAR\<close>) and for weather (key \<open>FILE\<close>, \<open>DATE\<close>).
\<close>

theorem drop_duplicates_last_loses:
  "drop_duplicates yld_keys
     [(\<lparr>YEAR = 2000, TOTAL_CORN_GRAIN_YIELD_MT = 1\<rparr>, ''a''),
      (\<lparr>YEAR = 2000, TOTAL_CORN_GRAIN_YIELD_MT = 2\<rparr>, ''b'')]
   = [(\<lparr>YEAR = 2000, TOTAL_CORN_GRAIN_YIELD_MT = 1\<rparr>, ''a'')]
   \<and> drop_duplicates wx_keys
     [(\<lparr>DATE = 19850102, MAX_TEMP_1_10_DEG_C = - 122, MIN_TEMP_1_10_DEG_C = - 217,
        PRECIPITATION_1_10_MM = 0\<rparr>, ''USC00110072''),
      (\<lparr>DATE = 19850102, MAX_TEMP_1_10_DEG_C = - 9999, MIN_TEMP_1_10_DEG_C = - 9999,
        PRECIPITATION_1_10_MM = - 9999\<rparr>, ''USC00110072'')]
   = [(\<lparr>DATE = 19850102, MAX_TEMP_1_10_DEG_C = - 122, MIN_TEMP_1_10_DEG_C = - 217,
        PRECIPITATION_1_10_MM = 0\<rparr>, ''USC00110072'')]"
  by (simp add: yld_keys_def wx_keys_def FILE_def)

text \<open>
  Claim C3. Whatever is uploaded, the table afterwards is the old table followed by
  added rows whose keys were all absent: every stored row is where it was, and a lookup
  by a key that was present returns the row stored before, also when a staged record
  carries that key with another value. A conflict raises nothing: when the values fit
  their columns and nothing fails outside, the upload succeeds.
\<close>

theorem upload_to_db_skips_conflicts:
  "(\<exists>added. fst (upload_to_db pkey coerce fault (Some rows) df) = Some (rows @ added)
       \<and> pkey ` set added \<inter> pkey ` set rows = {}
       \<and> (\<forall>k. k \<in> pkey ` set rows \<longrightarrow>
            find (\<lambda>r. pkey r = k) (rows @ added) = find (\<lambda>r. pkey r = k) rows))
   \<and> (collect (map coerce df) = Inr staged \<longrightarrow>
        (\<exists>n. snd (upload_to_db pkey coerce None (Some rows) df) = Inr n))"
proof (intro conjI impI)
  obtain added where
    a: "fst (upload_to_db pkey coerce fault (Some rows) df) = Some (rows @ added)"
    and b: "pkey ` set added \<inter> pkey ` set rows = {}"
    using upload_to_db_appends [of pkey coerce fault rows df] by blast
  have c: "\<forall>k. k \<in> pkey ` set rows \<longrightarrow>
            find (\<lambda>r. pkey r = k) (rows @ added) = find (\<lambda>r. pkey r = k) rows"
    using find_append_present [of _ pkey rows added] by blast
  from a b c have "fst (upload_to_db pkey coerce fault (Some rows) df) = Some (rows @ added)
       \<and> pkey ` set added \<inter> pkey ` set rows = {}
       \<and> (\<forall>k. k \<in> pkey ` set rows \<longrightarrow>
            find (\<lambda>r. pkey r = k) (rows @ added) = find (\<lambda>r. pkey r = k) rows)"
    by simp
  then show "\<exists>added. fst (upload_to_db pkey coerce fault (Some rows) df) = Some (rows @ added)
       \<and> pkey ` set added \<inter> pkey ` set rows = {}
       \<and> (\<forall>k. k \<in> pkey ` set rows \<longrightarrow>
            find (\<lambda>r. pkey r = k) (rows @ added) = find (\<lambda>r. pkey r = k) rows)"
    by (rule exI)
next
  assume "collect (map coerce df) = Inr staged"
  then show "\<exists>n. snd (upload_to_db pkey coerce None (Some rows) df) = Inr n"
    by (simp add: upload_to_db_no_fault)
qed

text \<open>
  Claim C5. If \<open>upload_to_db\<close> fails, at whichever statement and for whichever reason
  (a value the staging table refuses, a failure of the connection or the server at any
  of the five statements), the base table is what it was; and in every case the table
  has at least as many rows after as before.
\<close>

theorem upload_to_db_all_or_nothing:
  "(\<forall>e. snd (upload_to_db pkey coerce fault db df) = Inl e \<longrightarrow>
        fst (upload_to_db pkey coerce fault db df) = db)
   \<and> (\<forall>rows. db = Some rows \<longrightarrow>
        (\<exists>rows'. fst (upload_to_db pkey coerce fault db df) = Some rows'
                  \<and> length rows \<le> length rows'))"
proof (cases db)
  case None
  then show ?thesis by (simp add: upload_to_db_None)
next
  case (Some rows)
  obtain added where
    a: "fst (upload_to_db pkey coerce fault (Some rows) df) = Some (rows @ added)"
    using upload_to_db_appends [of pkey coerce fault rows df] by blast
  have 1: "\<forall>e. snd (upload_to_db pkey coerce fault (Some rows) df) = Inl e \<longrightarrow>
        fst (upload_to_db pkey coerce fault (Some rows) df) = Some rows"
    using upload_to_db_error_unchanged [of pkey coerce fault rows df] by blast
  have 2: "\<exists>rows'. fst (upload_to_db pkey coerce fault (Some rows) df) = Some rows'
                  \<and> length rows \<le> length rows'"
    using a by simp
  show ?thesis unfolding Some using 1 2 by simp
qed

section \<open>The claims on ingestion at concrete inputs\<close>

lemma wx_first_run: "ingest_data_wx one_station ymd None None = (Some wx_1985, Inr 3)"
  by code_simp

lemma yld_first_run: "ingest_data_yld listing_ab None None
    = (Some [\<lparr>year = 2000, total_corn_grain_yield_mt = Some 1\<rparr>], Inr 1)"
  by code_simp

lemma staged_2000: "collect (map copy_yld [\<lparr>year = 2000, total_corn_grain_yield_mt = Some 7\<rparr>])
    = Inr [\<lparr>year = 2000, total_corn_grain_yield_mt = Some 7\<rparr>]
  \<and> yld_pkey ` set [\<lparr>year = 2000, total_corn_grain_yield_mt = Some 7\<rparr>] \<subseteq> yld_pkey ` set yld_sample"
  by (simp add: copy_yld_def int4_def int4_null_def yld_pkey_def yld_sample_def)

lemma staged_two: "collect (map copy_yld
      [\<lparr>year = 2000, total_corn_grain_yield_mt = Some 7\<rparr>,
       \<lparr>year = 2002, total_corn_grain_yield_mt = Some 9\<rparr>])
    = Inr [\<lparr>year = 2000, total_corn_grain_yield_mt = Some 7\<rparr>,
           \<lparr>year = 2002, total_corn_grain_yield_mt = Some 9\<rparr>]"
  by (simp add: copy_yld_def int4_def int4_null_def)

lemma upload_two: "upload_to_db yld_pkey copy_yld None (Some yld_sample)
      [\<lparr>year = 2000, total_corn_grain_yield_mt = Some 7\<rparr>,
       \<lparr>year = 2002, total_corn_grain_yield_mt = Some 9\<rparr>]
    = (Some (yld_sample @ [\<lparr>year = 2002, total_corn_grain_yield_mt = Some 9\<rparr>]), Inr 1)"
  by code_simp

text \<open>
  Claim C3 at a concrete input: a yield table with the years 1999 to 2001 takes a record
  for 2000 with another value and a record for 2002; only the second is added.
\<close>

theorem upload_to_db_skips_conflicts_witness:
  "collect (map copy_yld
      [\<lparr>year = 2000, total_corn_grain_yield_mt = Some 7\<rparr>,
       \<lparr>year = 2002, total_corn_grain_yield_mt = Some 9\<rparr>])
    = Inr [\<lparr>year = 2000, total_corn_grain_yield_mt = Some 7\<rparr>,
           \<lparr>year = 2002, total_corn_grain_yield_mt = Some 9\<rparr>]
   \<and> (\<exists>n. snd (upload_to_db yld_pkey copy_yld None (Some yld_sample)
      [\<lparr>year = 2000, total_corn_grain_yield_mt = Some 7\<rparr>,
       \<lparr>year = 2002, total_corn_grain_yield_mt = Some 9\<rparr>]) = Inr n)
   \<and> (\<exists>added. fst (upload_to_db yld_pkey copy_yld None (Some yld_sample)
      [\<lparr>year = 2000, total_corn_grain_yield_mt = Some 7\<rparr>,
       \<lparr>year = 2002, total_corn_grain_yield_mt = Some 9\<rparr>]) = Some (yld_sample @ added)
       \<and> yld_pkey ` set added \<inter> yld_pkey ` set yld_sample = {})
   \<and> fst (upload_to_db yld_pkey copy_yld None (Some yld_sample)
      [\<lparr>year = 2000, total_corn_grain_yield_mt = Some 7\<rparr>,
       \<lparr>year = 2002, total_corn_grain_yield_mt = Some 9\<rparr>])
      = Some (yld_sample @ [\<lparr>year = 2002, total_corn_grain_yield_mt = Some 9\<rparr>])"
proof -
  note t = upload_to_db_skips_conflicts [where pkey = yld_pkey and coerce = copy_yld
      and fault = None and rows = yld_sample
      and df = "[\<lparr>year = 2000, total_corn_grain_yield_mt = Some 7\<rparr>,
                 \<lparr>year = 2002, total_corn_grain_yield_mt = Some 9\<rparr>]"
      and staged = "[\<lparr>year = 2000, total_corn_grain_yield_mt = Some 7\<rparr>,
                     \<lparr>year = 2002, total_corn_grain_yield_mt = Some 9\<rparr>]"]
  from t staged_two have a: "\<exists>n. snd (upload_to_db yld_pkey copy_yld None (Some yld_sample)
      [\<lparr>year = 2000, total_corn_grain_yield_mt = Some 7\<rparr>,
       \<lparr>year = 2002, total_corn_grain_yield_mt = Some 9\<rparr>]) = Inr n" by blast
  from t have b: "\<exists>added. fst (upload_to_db yld_pkey copy_yld None (Some yld_sample)
      [\<lparr>year = 2000, total_corn_grain_yield_mt = Some 7\<rparr>,
       \<lparr>year = 2002, total_corn_grain_yield_mt = Some 9\<rparr>]) = Some (yld_sample @ added)
       \<and> yld_pkey ` set added \<inter> yld_pkey ` set yld_sample = {}" by blast
  show ?thesis using staged_two a b upload_two by simp
qed

lemma upload_overflow: "snd (upload_to_db yld_pkey copy_yld None (Some yld_sample)
      [\<lparr>year = 2002, total_corn_grain_yield_mt = Some 9\<rparr>,
       \<lparr>year = 2003, total_corn_grain_yield_mt = Some 4294967296\<rparr>]) = Inl DataError"
  by code_simp

text \<open>
  Claim C5 at a concrete input: the second staged record does not fit \<open>int4\<close>, the
  upload fails, and the first record has not reached the table.
\<close>

theorem upload_to_db_all_or_nothing_witness:
  "snd (upload_to_db yld_pkey copy_yld None (Some yld_sample)
      [\<lparr>year = 2002, total_corn_grain_yield_mt = Some 9\<rparr>,
       \<lparr>year = 2003, total_corn_grain_yield_mt = Some 4294967296\<rparr>]) = Inl DataError
   \<and> fst (upload_to_db yld_pkey copy_yld None (Some yld_sample)
      [\<lparr>year = 2002, total_corn_grain_yield_mt = Some 9\<rparr>,
       \<lparr>year = 2003, total_corn_grain_yield_mt = Some 4294967296\<rparr>]) = Some yld_sample
   \<and> (\<exists>rows'. fst (upload_to_db yld_pkey copy_yld None (Some yld_sample)
      [\<lparr>year = 2002, total_corn_grain_yield_mt = Some 9\<rparr>,
       \<lparr>year = 2003, total_corn_grain_yield_mt = Some 4294967296\<rparr>]) = Some rows'
       \<and> length yld_sample \<le> length rows')"
proof -
  note t = upload_to_db_all_or_nothing [where pkey = yld_pkey and coerce = copy_yld
      and fault = None and db = "Some yld_sample"
      and df = "[\<lparr>year = 2002, total_corn_grain_yield_mt = Some 9\<rparr>,
                 \<lparr>year = 2003, total_corn_grain_yield_mt = Some 4294967296\<rparr>]"]
  from t upload_overflow have a: "fst (upload_to_db yld_pkey copy_yld None (Some yld_sample)
      [\<lparr>year = 2002, total_corn_grain_yield_mt = Some 9\<rparr>,
       \<lparr>year = 2003, total_corn_grain_yield_mt = Some 4294967296\<rparr>]) = Some yld_sample"
    by blast
  from t have b: "\<exists>rows'. fst (upload_to_db yld_pkey copy_yld None (Some yld_sample)
      [\<lparr>year = 2002, total_corn_grain_yield_mt = Some 9\<rparr>,
       \<lparr>year = 2003, total_corn_grain_yield_mt = Some 4294967296\<rparr>]) = Some rows'
       \<and> length yld_sample \<le> length rows'" by blast
  show ?thesis using upload_overflow a b by blast
qed

section \<open>The order of the directory listing\<close>

lemma concat_files_Inr:
  assumes "concat_files e keys = Inr df"
  shows "\<exists>dfs. map (ingest_data_helper e) (file_list e) = map Inr dfs \<and> dfs \<noteq> []
     \<and> df = drop_duplicates keys (concat dfs)"
proof (cases "collect (map (ingest_data_helper e) (file_list e))")
  case (Inl err)
  with assms show ?thesis by (simp add: concat_files_def)
next
  case (Inr dfs)
  then have m: "map (ingest_data_helper e) (file_list e) = map Inr dfs"
    by (simp add: collect_Inr_iff)
  from assms Inr have ne: "dfs \<noteq> []"
    by (cases "dfs = []") (simp_all add: concat_files_def)
  from assms Inr ne have "df = drop_duplicates keys (concat dfs)"
    by (simp add: concat_files_def)
  with m ne have "map (ingest_data_helper e) (file_list e) = map Inr dfs \<and> dfs \<noteq> []
     \<and> df = drop_duplicates keys (concat dfs)" by simp
  then show ?thesis by (rule exI)
qed

lemma concat_files_keys:
  assumes "concat_files e keys = Inr df"
  shows "keys ` set df
     = keys ` {r. \<exists>f\<in>set (file_list e). \<exists>d. ingest_data_helper e f = Inr d \<and> r \<in> set d}"
proof -
  from concat_files_Inr [OF assms] obtain dfs where
    m: "map (ingest_data_helper e) (file_list e) = map Inr dfs" and
    d: "df = drop_duplicates keys (concat dfs)" by blast
  from m have "set (map (ingest_data_helper e) (file_list e)) = set (map Inr dfs)" by simp
  then have i: "ingest_data_helper e ` set (file_list e) = Inr ` set dfs" by simp
  have "set (concat dfs)
      = {r. \<exists>f\<in>set (file_list e). \<exists>d. ingest_data_helper e f = Inr d \<and> r \<in> set d}"
  proof (intro set_eqI iffI)
    fix r assume "r \<in> set (concat dfs)"
    then obtain d where d1: "d \<in> set dfs" and d2: "r \<in> set d" by auto
    from d1 have "Inr d \<in> ingest_data_helper e ` set (file_list e)" unfolding i by simp
    then obtain f where "f \<in> set (file_list e)" and "ingest_data_helper e f = Inr d" by auto
    with d2 show "r \<in> {r. \<exists>f\<in>set (file_list e). \<exists>d. ingest_data_helper e f = Inr d \<and> r \<in> set d}"
      by blast
  next
    fix r assume "r \<in> {r. \<exists>f\<in>set (file_list e). \<exists>d. ingest_data_helper e f = Inr d \<and> r \<in> set d}"
    then obtain f d where f1: "f \<in> set (file_list e)" and f2: "ingest_data_helper e f = Inr d"
      and f3: "r \<in> set d" by blast
    from f1 f2 have "Inr d \<in> ingest_data_helper e ` set (file_list e)" by force
    then have "Inr d \<in> (Inr ` set dfs :: (error + _) set)" unfolding i .
    then have "d \<in> set dfs" by auto
    with f3 show "r \<in> set (concat dfs)" by auto
  qed
  then show ?thesis unfolding d drop_duplicates_keys by simp
qed

lemma concat_files_succeeds:
  "(\<exists>df. concat_files e keys = Inr df) \<longleftrightarrow>
     file_list e \<noteq> [] \<and> (\<forall>f\<in>set (file_list e). \<exists>d. ingest_data_helper e f = Inr d)"
proof
  assume "\<exists>df. concat_files e keys = Inr df"
  then obtain df where "concat_files e keys = Inr df" by blast
  from concat_files_Inr [OF this] obtain dfs where
    m: "map (ingest_data_helper e) (file_list e) = map Inr dfs" and ne: "dfs \<noteq> []" by blast
  from m have "length (file_list e) = length dfs" using map_eq_imp_length_eq by blast
  with ne have 1: "file_list e \<noteq> []" by auto
  from m have "collect (map (ingest_data_helper e) (file_list e)) = Inr dfs"
    by (simp add: collect_Inr_iff)
  then have "\<exists>ys. collect (map (ingest_data_helper e) (file_list e)) = Inr ys" by (rule exI)
  then have "\<forall>x\<in>set (map (ingest_data_helper e) (file_list e)). \<exists>y. x = Inr y"
    unfolding collect_succeeds_iff .
  then have 2: "\<forall>f\<in>set (file_list e). \<exists>d. ingest_data_helper e f = Inr d" by simp
  from 1 2 show "file_list e \<noteq> [] \<and> (\<forall>f\<in>set (file_list e). \<exists>d. ingest_data_helper e f = Inr d)"
    by simp
next
  assume a: "file_list e \<noteq> [] \<and> (\<forall>f\<in>set (file_list e). \<exists>d. ingest_data_helper e f = Inr d)"
  then have "\<forall>x\<in>set (map (ingest_data_helper e) (file_list e)). \<exists>y. x = Inr y" by simp
  then have "\<exists>ys. collect (map (ingest_data_helper e) (file_list e)) = Inr ys"
    unfolding collect_succeeds_iff .
  then obtain dfs where c: "collect (map (ingest_data_helper e) (file_list e)) = Inr dfs" by blast
  then have "map (ingest_data_helper e) (file_list e) = map Inr dfs"
    by (simp add: collect_Inr_iff)
  then have "length (file_list e) = length dfs" using map_eq_imp_length_eq by blast
  with a have "dfs \<noteq> []" by auto
  with c have "concat_files e keys = Inr (drop_duplicates keys (concat dfs))"
    by (simp add: concat_files_def)
  then show "\<exists>df. concat_files e keys = Inr df" by (rule exI)
qed

lemma same_files:
  assumes "set (listdir e) = set (listdir e')" and "read_csv e = read_csv e'"
  shows "set (file_list e) = set (file_list e')"
    and "ingest_data_helper e = ingest_data_helper e'"
    and "file_list e \<noteq> [] \<longleftrightarrow> file_list e' \<noteq> []"
proof -
  show s: "set (file_list e) = set (file_list e')" using assms(1) by (simp add: file_list_def)
  show "ingest_data_helper e = ingest_data_helper e'"
    using assms(2) by (intro ext) (simp add: ingest_data_helper_def)
  from s show "file_list e \<noteq> [] \<longleftrightarrow> file_list e' \<noteq> []"
    by (metis set_empty)
qed

lemma concat_ab: "concat_files listing_ab yld_keys
    = Inr [(\<lparr>YEAR = 2000, TOTAL_CORN_GRAIN_YIELD_MT = 1\<rparr>, ''a'')]"
  by code_simp

lemma concat_ba: "concat_files listing_ba yld_keys
    = Inr [(\<lparr>YEAR = 2000, TOTAL_CORN_GRAIN_YIELD_MT = 2\<rparr>, ''b'')]"
  by code_simp

lemma yld_first_run_ba: "ingest_data_yld listing_ba None None
    = (Some [\<lparr>year = 2000, total_corn_grain_yield_mt = Some 2\<rparr>], Inr 1)"
  by code_simp

lemma same_listing:
  "set (listdir listing_ab) = set (listdir listing_ba) \<and> read_csv listing_ab = read_csv listing_ba"
  by (auto simp add: listing_ab_def listing_ba_def)

text \<open>
  Claim C6 as stated fails: two listings of the same two yield files in the two orders
  give two different records for the year 2000, in the deduplicated frame and in the
  table.
\<close>

theorem listing_order_changes_winner:
  "set (listdir listing_ab) = set (listdir listing_ba)
   \<and> read_csv listing_ab = read_csv listing_ba
   \<and> concat_files listing_ab yld_keys = Inr [(\<lparr>YEAR = 2000, TOTAL_CORN_GRAIN_YIELD_MT = 1\<rparr>, ''a'')]
   \<and> concat_files listing_ba yld_keys = Inr [(\<lparr>YEAR = 2000, TOTAL_CORN_GRAIN_YIELD_MT = 2\<rparr>, ''b'')]
   \<and> ingest_data_yld listing_ab None None
       = (Some [\<lparr>year = 2000, total_corn_grain_yield_mt = Some 1\<rparr>], Inr 1)
   \<and> ingest_data_yld listing_ba None None
       = (Some [\<lparr>year = 2000, total_corn_grain_yield_mt = Some 2\<rparr>], Inr 1)"
  using same_listing concat_ab concat_ba yld_first_run yld_first_run_ba by simp

section \<open>Lemmas on the aggregate builder\<close>

lemma int4_Inr: "int4 v = Inr w \<Longrightarrow> w = v"
  by (simp add: int4_def split: if_splits)























lemma mean_vals: "mean [- 128, - 217] = - 345 / 2" "mean [250, 261] = 511 / 2"
  by (simp_all add: mean_def)

section \<open>The claims on the aggregate builder\<close>















section \<open>The claims on the aggregate builder at concrete inputs\<close>








section \<open>Ingesting twice\<close>

lemma upload_to_db_noop:
  assumes "\<And>staged. collect (map coerce df) = Inr staged \<Longrightarrow> pkey ` set staged \<subseteq> pkey ` set rows"
  shows "fst (upload_to_db pkey coerce fault (Some rows) df) = Some rows"
proof (cases "fault = Some 0 \<or> fault = Some 1 \<or> fault = Some 2")
  case True
  show ?thesis by (simp add: upload_to_db_early_fault [OF True])
next
  case nf: False
  show ?thesis
  proof (cases "collect (map coerce df)")
    case (Inl e)
    show ?thesis by (simp add: upload_to_db_copy_error [OF nf Inl])
  next
    case (Inr staged)
    show ?thesis
    proof (cases "fault = Some 3 \<or> fault = Some 4")
      case True
      show ?thesis by (simp add: upload_to_db_late_fault [OF nf Inr True])
    next
      case False
      show ?thesis
        by (simp add: upload_to_db_merged [OF nf Inr False] ocdn_noop [OF assms [OF Inr]])
    qed
  qed
qed

lemma copy_wx_pkey:
  assumes "copy_wx r = Inr s"
  shows "varchar 20 (station_id r) = Inr (station_id s)" and "date s = date r"
proof -
  obtain c where c: "varchar 20 (station_id r) = Inr c"
    using assms by (cases "varchar 20 (station_id r)") (simp_all add: copy_wx_def)
  obtain lo where lo: "int4_null (min_temp_1_10_deg_c r) = Inr lo"
    using assms c by (cases "int4_null (min_temp_1_10_deg_c r)") (simp_all add: copy_wx_def)
  obtain hi where hi: "int4_null (max_temp_1_10_deg_c r) = Inr hi"
    using assms c lo by (cases "int4_null (max_temp_1_10_deg_c r)") (simp_all add: copy_wx_def)
  obtain p where p: "int4_null (precipitation_1_10_mm r) = Inr p"
    using assms c lo hi by (cases "int4_null (precipitation_1_10_mm r)") (simp_all add: copy_wx_def)
  from assms c lo hi p have s: "s = \<lparr>station_id = c, date = date r, min_temp_1_10_deg_c = lo,
      max_temp_1_10_deg_c = hi, precipitation_1_10_mm = p\<rparr>"
    by (simp add: copy_wx_def)
  show "varchar 20 (station_id r) = Inr (station_id s)" using c s by simp
  show "date s = date r" using s by simp
qed

lemma wx_frame_pkey:
  assumes "wx_frame to_datetime x = Inr r"
  shows "station_id r = fst (wx_keys x)" and "to_datetime (snd (wx_keys x)) = Inr (date r)"
proof -
  obtain d where d: "to_datetime (DATE (fst x)) = Inr d"
    using assms by (cases "to_datetime (DATE (fst x))") (simp_all add: wx_frame_def)
  from assms d have r: "r = \<lparr>station_id = FILE x, date = d,
               min_temp_1_10_deg_c = Some (MIN_TEMP_1_10_DEG_C (fst x)),
               max_temp_1_10_deg_c = Some (MAX_TEMP_1_10_DEG_C (fst x)),
               precipitation_1_10_mm = Some (PRECIPITATION_1_10_MM (fst x))\<rparr>"
    by (simp add: wx_frame_def)
  show "station_id r = fst (wx_keys x)" using r by (simp add: wx_keys_def)
  show "to_datetime (snd (wx_keys x)) = Inr (date r)" using r d by (simp add: wx_keys_def)
qed

lemma wx_staged_pkey:
  assumes "wx_frame to_datetime x = Inr r" and "copy_wx r = Inr s"
    and "wx_frame to_datetime x' = Inr r'" and "copy_wx r' = Inr s'"
    and "wx_keys x = wx_keys x'"
  shows "wx_pkey s = wx_pkey s'"
proof -
  have "Inr (station_id s) = (Inr (station_id s') :: error + string)"
    using copy_wx_pkey(1) [OF assms(2)] copy_wx_pkey(1) [OF assms(4)]
      wx_frame_pkey(1) [OF assms(1)] wx_frame_pkey(1) [OF assms(3)] assms(5) by simp
  moreover have "Inr (date s) = (Inr (date s') :: error + date)"
    using copy_wx_pkey(2) [OF assms(2)] copy_wx_pkey(2) [OF assms(4)]
      wx_frame_pkey(2) [OF assms(1)] wx_frame_pkey(2) [OF assms(3)] assms(5) by simp
  ultimately show ?thesis by (simp add: wx_pkey_def)
qed

lemma copy_yld_pkey:
  assumes "copy_yld r = Inr s"
  shows "year s = year r"
proof -
  obtain y where y: "int4 (year r) = Inr y"
    using assms by (cases "int4 (year r)") (simp_all add: copy_yld_def)
  obtain v where v: "int4_null (total_corn_grain_yield_mt r) = Inr v"
    using assms y by (cases "int4_null (total_corn_grain_yield_mt r)") (simp_all add: copy_yld_def)
  from assms y v have "s = \<lparr>year = y, total_corn_grain_yield_mt = v\<rparr>" by (simp add: copy_yld_def)
  then show ?thesis using int4_Inr [OF y] by simp
qed

lemma ingest_data_wx_success:
  assumes "ingest_data_wx env to_datetime fault db = (db1, Inr n)"
  shows "\<exists>df df' rows staged. concat_files env wx_keys = Inr df
      \<and> collect (map (wx_frame to_datetime) df) = Inr df'
      \<and> collect (map copy_wx df') = Inr staged
      \<and> db1 = Some (on_conflict_do_nothing wx_pkey rows staged)"
proof (cases "concat_files env wx_keys")
  case (Inl e)
  with assms show ?thesis by (simp add: ingest_data_wx_def)
next
  case c: (Inr df)
  show ?thesis
  proof (cases "collect (map (wx_frame to_datetime) df)")
    case (Inl e)
    with assms c show ?thesis by (simp add: ingest_data_wx_def)
  next
    case f: (Inr df')
    obtain rows where r: "create_table db = Some rows" using create_table_Some by blast
    from assms have "upload_to_db wx_pkey copy_wx fault (Some rows) df' = (db1, Inr n)"
      by (simp add: ingest_data_wx_def c f r)
    from upload_to_db_success [OF this] obtain staged where
      "collect (map copy_wx df') = Inr staged"
      "db1 = Some (on_conflict_do_nothing wx_pkey rows staged)" by blast
    with c f show ?thesis by blast
  qed
qed

lemma ingest_data_yld_success:
  assumes "ingest_data_yld env fault db = (db1, Inr n)"
  shows "\<exists>df rows staged. concat_files env yld_keys = Inr df
      \<and> collect (map copy_yld (map yld_frame df)) = Inr staged
      \<and> db1 = Some (on_conflict_do_nothing yld_pkey rows staged)"
proof (cases "concat_files env yld_keys")
  case (Inl e)
  with assms show ?thesis by (simp add: ingest_data_yld_def)
next
  case c: (Inr df)
  obtain rows where r: "create_table db = Some rows" using create_table_Some by blast
  from assms have "upload_to_db yld_pkey copy_yld fault (Some rows) (map yld_frame df) = (db1, Inr n)"
    by (simp add: ingest_data_yld_def c r)
  from upload_to_db_success [OF this] obtain staged where
    "collect (map copy_yld (map yld_frame df)) = Inr staged"
    "db1 = Some (on_conflict_do_nothing yld_pkey rows staged)" by blast
  with c show ?thesis by blast
qed

lemma same_files_keys:
  assumes "set (listdir e') = set (listdir e)" and "read_csv e' = read_csv e"
    and "concat_files e keys = Inr df" and "concat_files e' keys = Inr df'"
  shows "keys ` set df' = keys ` set df"
  unfolding concat_files_keys [OF assms(3)] concat_files_keys [OF assms(4)]
    same_files [OF assms(1) assms(2)] ..

lemma ingest_wx_again_any_order:
  assumes "ingest_data_wx env to_datetime fault db = (db1, Inr n)"
    and "set (listdir env2) = set (listdir env)" and "read_csv env2 = read_csv env"
  shows "fst (ingest_data_wx env2 to_datetime fault2 db1) = db1"
proof -
  from ingest_data_wx_success [OF assms(1)] obtain df df' rows staged where
    c: "concat_files env wx_keys = Inr df" and
    f: "collect (map (wx_frame to_datetime) df) = Inr df'" and
    st: "collect (map copy_wx df') = Inr staged" and
    d1: "db1 = Some (on_conflict_do_nothing wx_pkey rows staged)" by blast
  show ?thesis
  proof (cases "concat_files env2 wx_keys")
    case (Inl e)
    then show ?thesis by (simp add: ingest_data_wx_def)
  next
    case c2: (Inr df2)
    note k = same_files_keys [OF assms(2) assms(3) c c2]
    show ?thesis
    proof (cases "collect (map (wx_frame to_datetime) df2)")
      case (Inl e)
      then show ?thesis by (simp add: ingest_data_wx_def c2)
    next
      case f2: (Inr df2')
      have sub: "\<And>staged2. collect (map copy_wx df2') = Inr staged2 \<Longrightarrow>
          wx_pkey ` set staged2 \<subseteq> wx_pkey ` set (on_conflict_do_nothing wx_pkey rows staged)"
      proof
        fix staged2 key
        assume st2: "collect (map copy_wx df2') = Inr staged2" and "key \<in> wx_pkey ` set staged2"
        then obtain s2 where s2: "s2 \<in> set staged2" and key: "key = wx_pkey s2" by auto
        from collect_map_member [OF st2 s2] obtain r2 where
          r2: "r2 \<in> set df2'" and cr2: "copy_wx r2 = Inr s2" by blast
        from collect_map_member [OF f2 r2] obtain x2 where
          x2: "x2 \<in> set df2" and fx2: "wx_frame to_datetime x2 = Inr r2" by blast
        from x2 have "wx_keys x2 \<in> wx_keys ` set df2" by simp
        then have "wx_keys x2 \<in> wx_keys ` set df" unfolding k .
        then obtain x where x: "x \<in> set df" and kx: "wx_keys x = wx_keys x2" by auto
        from collect_map_total [OF f x] obtain r where
          r: "r \<in> set df'" and fx: "wx_frame to_datetime x = Inr r" by blast
        from collect_map_total [OF st r] obtain s where
          s: "s \<in> set staged" and cr: "copy_wx r = Inr s" by blast
        from wx_staged_pkey [OF fx cr fx2 cr2 kx] have "wx_pkey s = key" unfolding key .
        with s have "key \<in> wx_pkey ` set staged" by auto
        then show "key \<in> wx_pkey ` set (on_conflict_do_nothing wx_pkey rows staged)"
          unfolding ocdn_keys by simp
      qed
      show ?thesis
        unfolding ingest_data_wx_def d1 create_table_idem
        using upload_to_db_noop [of copy_wx df2' wx_pkey
            "on_conflict_do_nothing wx_pkey rows staged" fault2, OF sub]
        by (simp add: c2 f2)
    qed
  qed
qed

lemma ingest_yld_again_any_order:
  assumes "ingest_data_yld env fault db = (db1, Inr n)"
    and "set (listdir env2) = set (listdir env)" and "read_csv env2 = read_csv env"
  shows "fst (ingest_data_yld env2 fault2 db1) = db1"
proof -
  from ingest_data_yld_success [OF assms(1)] obtain df rows staged where
    c: "concat_files env yld_keys = Inr df" and
    st: "collect (map copy_yld (map yld_frame df)) = Inr staged" and
    d1: "db1 = Some (on_conflict_do_nothing yld_pkey rows staged)" by blast
  show ?thesis
  proof (cases "concat_files env2 yld_keys")
    case (Inl e)
    then show ?thesis by (simp add: ingest_data_yld_def)
  next
    case c2: (Inr df2)
    note k = same_files_keys [OF assms(2) assms(3) c c2]
    have sub: "\<And>staged2. collect (map copy_yld (map yld_frame df2)) = Inr staged2 \<Longrightarrow>
        yld_pkey ` set staged2 \<subseteq> yld_pkey ` set (on_conflict_do_nothing yld_pkey rows staged)"
    proof
      fix staged2 key
      assume st2: "collect (map copy_yld (map yld_frame df2)) = Inr staged2"
        and "key \<in> yld_pkey ` set staged2"
      then obtain s2 where s2: "s2 \<in> set staged2" and key: "key = yld_pkey s2" by auto
      from collect_map_member [OF st2 s2] obtain r2 where
        r2: "r2 \<in> set (map yld_frame df2)" and cr2: "copy_yld r2 = Inr s2" by blast
      from r2 obtain x2 where x2: "x2 \<in> set df2" and fx2: "r2 = yld_frame x2" by auto
      from x2 have "yld_keys x2 \<in> yld_keys ` set df2" by simp
      then have "yld_keys x2 \<in> yld_keys ` set df" unfolding k .
      then obtain x where x: "x \<in> set df" and kx: "yld_keys x = yld_keys x2" by auto
      from x have "yld_frame x \<in> set (map yld_frame df)" by simp
      from collect_map_total [OF st this] obtain s where
        s: "s \<in> set staged" and cr: "copy_yld (yld_frame x) = Inr s" by blast
      have "yld_pkey s = yld_keys x"
        using copy_yld_pkey [OF cr] by (simp add: yld_pkey_def yld_frame_def yld_keys_def)
      moreover have "yld_pkey s2 = yld_keys x2"
        using copy_yld_pkey [OF cr2] fx2 by (simp add: yld_pkey_def yld_frame_def yld_keys_def)
      ultimately have "yld_pkey s = key" using kx key by simp
      with s have "key \<in> yld_pkey ` set staged" by auto
      then show "key \<in> yld_pkey ` set (on_conflict_do_nothing yld_pkey rows staged)"
        unfolding ocdn_keys by simp
    qed
    show ?thesis
      unfolding ingest_data_yld_def d1 create_table_idem
      using upload_to_db_noop [of copy_yld "map yld_frame df2" yld_pkey
          "on_conflict_do_nothing yld_pkey rows staged" fault2, OF sub]
      by (simp add: c2)
  qed
qed

text \<open>
  Claim C1. An ingestion that has succeeded, run again on the same files, leaves the
  table exactly as it is and logs zero rows added, for weather and for yield; so the
  row count after two runs is the row count after one. The table also stays as it is
  when the second run gets the same files listed in another order, and whether or not
  it fails on the way. At the level of the rows: when every staged key is already in
  the table, the upload changes nothing.
\<close>

theorem ingest_twice_same_table:
  "(ingest_data_wx env to_datetime fault db = (db1, Inr n) \<longrightarrow>
      ingest_data_wx env to_datetime None db1 = (db1, Inr 0)
      \<and> (set (listdir env2) = set (listdir env) \<and> read_csv env2 = read_csv env \<longrightarrow>
           fst (ingest_data_wx env2 to_datetime fault2 db1) = db1))
   \<and> (ingest_data_yld env' fault' db' = (db1', Inr n') \<longrightarrow>
      ingest_data_yld env' None db1' = (db1', Inr 0)
      \<and> (set (listdir env2') = set (listdir env') \<and> read_csv env2' = read_csv env' \<longrightarrow>
           fst (ingest_data_yld env2' fault2' db1') = db1'))
   \<and> (collect (map coerce df) = Inr staged \<and> pkey ` set staged \<subseteq> pkey ` set rows \<longrightarrow>
      upload_to_db pkey coerce None (Some rows) df = (Some rows, Inr 0))"
proof (intro conjI impI)
  assume a: "ingest_data_wx env to_datetime fault db = (db1, Inr n)"
  show "ingest_data_wx env to_datetime None db1 = (db1, Inr 0)"
  proof (cases "concat_files env wx_keys")
    case (Inl e)
    with a show ?thesis by (simp add: ingest_data_wx_def)
  next
    case c: (Inr df)
    show ?thesis
    proof (cases "collect (map (wx_frame to_datetime) df)")
      case (Inl e)
      with a c show ?thesis by (simp add: ingest_data_wx_def)
    next
      case f: (Inr df')
      from a have "upload_to_db wx_pkey copy_wx fault (create_table db) df' = (db1, Inr n)"
        by (simp add: ingest_data_wx_def c f)
      from upload_twice [OF this] show ?thesis
        by (simp add: ingest_data_wx_def c f)
    qed
  qed
next
  assume "ingest_data_wx env to_datetime fault db = (db1, Inr n)"
    and "set (listdir env2) = set (listdir env) \<and> read_csv env2 = read_csv env"
  then show "fst (ingest_data_wx env2 to_datetime fault2 db1) = db1"
    using ingest_wx_again_any_order [of env to_datetime fault db db1 n env2 fault2] by simp
next
  assume a: "ingest_data_yld env' fault' db' = (db1', Inr n')"
  show "ingest_data_yld env' None db1' = (db1', Inr 0)"
  proof (cases "concat_files env' yld_keys")
    case (Inl e)
    with a show ?thesis by (simp add: ingest_data_yld_def)
  next
    case c: (Inr df)
    from a have "upload_to_db yld_pkey copy_yld fault' (create_table db') (map yld_frame df)
        = (db1', Inr n')"
      by (simp add: ingest_data_yld_def c)
    from upload_twice [OF this] show ?thesis
      by (simp add: ingest_data_yld_def c)
  qed
next
  assume "ingest_data_yld env' fault' db' = (db1', Inr n')"
    and "set (listdir env2') = set (listdir env') \<and> read_csv env2' = read_csv env'"
  then show "fst (ingest_data_yld env2' fault2' db1') = db1'"
    using ingest_yld_again_any_order [of env' fault' db' db1' n' env2' fault2'] by simp
next
  assume "collect (map coerce df) = Inr staged \<and> pkey ` set staged \<subseteq> pkey ` set rows"
  then show "upload_to_db pkey coerce None (Some rows) df = (Some rows, Inr 0)"
    using upload_present_keys [of coerce df staged pkey rows] by simp
qed

text \<open>
  Claim C1 at a concrete input: the weather station file and the two yield files,
  ingested into an empty database and then again, the yield files also in the other
  order; and a record for the year 2000 uploaded into a yield table that has that year.
\<close>

theorem ingest_twice_same_table_witness:
  "ingest_data_wx one_station ymd None None = (Some wx_1985, Inr 3)
   \<and> ingest_data_wx one_station ymd None (Some wx_1985) = (Some wx_1985, Inr 0)
   \<and> ingest_data_yld listing_ab None None
        = (Some [\<lparr>year = 2000, total_corn_grain_yield_mt = Some 1\<rparr>], Inr 1)
   \<and> ingest_data_yld listing_ab None (Some [\<lparr>year = 2000, total_corn_grain_yield_mt = Some 1\<rparr>])
        = (Some [\<lparr>year = 2000, total_corn_grain_yield_mt = Some 1\<rparr>], Inr 0)
   \<and> fst (ingest_data_yld listing_ba None (Some [\<lparr>year = 2000, total_corn_grain_yield_mt = Some 1\<rparr>]))
        = Some [\<lparr>year = 2000, total_corn_grain_yield_mt = Some 1\<rparr>]
   \<and> upload_to_db yld_pkey copy_yld None (Some yld_sample)
        [\<lparr>year = 2000, total_corn_grain_yield_mt = Some 7\<rparr>] = (Some yld_sample, Inr 0)"
  using ingest_twice_same_table [where env = one_station and to_datetime = ymd and fault = None
      and db = None and ?db1.0 = "Some wx_1985" and n = 3
      and ?env' = listing_ab and ?fault' = None and ?db' = None
      and ?db1' = "Some [\<lparr>year = 2000, total_corn_grain_yield_mt = Some 1\<rparr>]" and ?n' = 1
      and ?env2' = listing_ba and ?fault2' = None
      and coerce = copy_yld and df = "[\<lparr>year = 2000, total_corn_grain_yield_mt = Some 7\<rparr>]"
      and staged = "[\<lparr>year = 2000, total_corn_grain_yield_mt = Some 7\<rparr>]"
      and pkey = yld_pkey and rows = yld_sample]
    wx_first_run yld_first_run staged_2000 same_listing
  by simp

section \<open>The order of the directory listing and the tables\<close>

lemma ingest_data_wx_parts:
  assumes "ingest_data_wx env to_datetime fault db = (db1, Inr n)"
  shows "\<exists>df df' rows staged. concat_files env wx_keys = Inr df
      \<and> collect (map (wx_frame to_datetime) df) = Inr df'
      \<and> create_table db = Some rows
      \<and> collect (map copy_wx df') = Inr staged
      \<and> db1 = Some (on_conflict_do_nothing wx_pkey rows staged)"
proof (cases "concat_files env wx_keys")
  case (Inl e)
  with assms show ?thesis by (simp add: ingest_data_wx_def)
next
  case c: (Inr df)
  show ?thesis
  proof (cases "collect (map (wx_frame to_datetime) df)")
    case (Inl e)
    with assms c show ?thesis by (simp add: ingest_data_wx_def)
  next
    case f: (Inr df')
    obtain rows where r: "create_table db = Some rows" using create_table_Some by blast
    from assms have "upload_to_db wx_pkey copy_wx fault (Some rows) df' = (db1, Inr n)"
      by (simp add: ingest_data_wx_def c f r)
    from upload_to_db_success [OF this] obtain staged where
      "collect (map copy_wx df') = Inr staged"
      "db1 = Some (on_conflict_do_nothing wx_pkey rows staged)" by blast
    with c f r show ?thesis by blast
  qed
qed

lemma ingest_data_yld_parts:
  assumes "ingest_data_yld env fault db = (db1, Inr n)"
  shows "\<exists>df rows staged. concat_files env yld_keys = Inr df
      \<and> create_table db = Some rows
      \<and> collect (map copy_yld (map yld_frame df)) = Inr staged
      \<and> db1 = Some (on_conflict_do_nothing yld_pkey rows staged)"
proof (cases "concat_files env yld_keys")
  case (Inl e)
  with assms show ?thesis by (simp add: ingest_data_yld_def)
next
  case c: (Inr df)
  obtain rows where r: "create_table db = Some rows" using create_table_Some by blast
  from assms have "upload_to_db yld_pkey copy_yld fault (Some rows) (map yld_frame df) = (db1, Inr n)"
    by (simp add: ingest_data_yld_def c r)
  from upload_to_db_success [OF this] obtain staged where
    "collect (map copy_yld (map yld_frame df)) = Inr staged"
    "db1 = Some (on_conflict_do_nothing yld_pkey rows staged)" by blast
  with c r show ?thesis by blast
qed

lemma ocdn_fixed_keys:
  assumes "on_conflict_do_nothing pkey t staged = t"
  shows "pkey ` set staged \<subseteq> pkey ` set t"
proof -
  have "pkey ` set (on_conflict_do_nothing pkey t staged) = pkey ` set t \<union> pkey ` set staged"
    by (rule ocdn_keys)
  then show ?thesis unfolding assms by blast
qed

lemma ingest_yld_no_fault:
  assumes "concat_files e yld_keys = Inr df"
    and "collect (map copy_yld (map yld_frame df)) = Inr staged"
  shows "ingest_data_yld e None (Some t)
      = (Some (on_conflict_do_nothing yld_pkey t staged),
         Inr (int (length (on_conflict_do_nothing yld_pkey t staged)) - int (length t)))"
proof -
  have "ingest_data_yld e None (Some t)
      = upload_to_db yld_pkey copy_yld None (Some t) (map yld_frame df)"
    unfolding ingest_data_yld_def assms(1) create_table_idem by simp
  then show ?thesis unfolding upload_to_db_no_fault [OF assms(2)] .
qed

lemma yld_other_order_keys:
  assumes "ingest_data_yld e fault db = (Some t1, Inr n1)"
    and "ingest_data_yld e' fault' db = (Some t2, Inr n2)"
    and "set (listdir e') = set (listdir e)" and "read_csv e' = read_csv e"
  shows "yld_pkey ` set t2 \<subseteq> yld_pkey ` set t1"
proof -
  from ingest_data_yld_parts [OF assms(1)] obtain df rows staged where
    r: "create_table db = Some rows" and
    t1: "Some t1 = Some (on_conflict_do_nothing yld_pkey rows staged)" by blast
  from ingest_data_yld_parts [OF assms(2)] obtain df2 rows2 staged2 where
    c2: "concat_files e' yld_keys = Inr df2" and
    r2: "create_table db = Some rows2" and
    st2: "collect (map copy_yld (map yld_frame df2)) = Inr staged2" and
    t2: "Some t2 = Some (on_conflict_do_nothing yld_pkey rows2 staged2)" by blast
  from r r2 have rr: "rows2 = rows" by simp
  from t1 have e1: "t1 = on_conflict_do_nothing yld_pkey rows staged" by (rule option.inject [THEN iffD1])
  from t2 have e2: "t2 = on_conflict_do_nothing yld_pkey rows staged2"
    unfolding rr by (rule option.inject [THEN iffD1])
  have "fst (ingest_data_yld e' None (Some t1)) = Some t1"
    by (rule ingest_yld_again_any_order [OF assms(1) assms(3) assms(4)])
  then have "Some (on_conflict_do_nothing yld_pkey t1 staged2) = Some t1"
    unfolding ingest_yld_no_fault [OF c2 st2] fst_conv .
  then have "on_conflict_do_nothing yld_pkey t1 staged2 = t1" by (rule option.inject [THEN iffD1])
  from ocdn_fixed_keys [OF this] have a: "yld_pkey ` set staged2 \<subseteq> yld_pkey ` set t1" .
  have k1: "yld_pkey ` set t1 = yld_pkey ` set rows \<union> yld_pkey ` set staged"
    unfolding e1 by (rule ocdn_keys)
  have k2: "yld_pkey ` set t2 = yld_pkey ` set rows \<union> yld_pkey ` set staged2"
    unfolding e2 by (rule ocdn_keys)
  from a show ?thesis unfolding k2 unfolding k1 by blast
qed

lemma ingest_wx_no_fault:
  assumes "concat_files e wx_keys = Inr df"
    and "collect (map (wx_frame to_datetime) df) = Inr df'"
    and "collect (map copy_wx df') = Inr staged"
  shows "ingest_data_wx e to_datetime None (Some t)
      = (Some (on_conflict_do_nothing wx_pkey t staged),
         Inr (int (length (on_conflict_do_nothing wx_pkey t staged)) - int (length t)))"
proof -
  have "ingest_data_wx e to_datetime None (Some t)
      = upload_to_db wx_pkey copy_wx None (Some t) df'"
    unfolding ingest_data_wx_def assms(1) create_table_idem by (simp add: assms(2))
  then show ?thesis unfolding upload_to_db_no_fault [OF assms(3)] .
qed

lemma wx_other_order_keys:
  assumes "ingest_data_wx e to_datetime fault db = (Some t1, Inr n1)"
    and "ingest_data_wx e' to_datetime fault' db = (Some t2, Inr n2)"
    and "set (listdir e') = set (listdir e)" and "read_csv e' = read_csv e"
  shows "wx_pkey ` set t2 \<subseteq> wx_pkey ` set t1"
proof -
  from ingest_data_wx_parts [OF assms(1)] obtain df df' rows staged where
    r: "create_table db = Some rows" and
    t1: "Some t1 = Some (on_conflict_do_nothing wx_pkey rows staged)" by blast
  from ingest_data_wx_parts [OF assms(2)] obtain df2 df2' rows2 staged2 where
    c2: "concat_files e' wx_keys = Inr df2" and
    f2: "collect (map (wx_frame to_datetime) df2) = Inr df2'" and
    r2: "create_table db = Some rows2" and
    st2: "collect (map copy_wx df2') = Inr staged2" and
    t2: "Some t2 = Some (on_conflict_do_nothing wx_pkey rows2 staged2)" by blast
  from r r2 have rr: "rows2 = rows" by simp
  from t1 have e1: "t1 = on_conflict_do_nothing wx_pkey rows staged" by (rule option.inject [THEN iffD1])
  from t2 have e2: "t2 = on_conflict_do_nothing wx_pkey rows staged2"
    unfolding rr by (rule option.inject [THEN iffD1])
  have "fst (ingest_data_wx e' to_datetime None (Some t1)) = Some t1"
    by (rule ingest_wx_again_any_order [OF assms(1) assms(3) assms(4)])
  then have "Some (on_conflict_do_nothing wx_pkey t1 staged2) = Some t1"
    unfolding ingest_wx_no_fault [OF c2 f2 st2] fst_conv .
  then have "on_conflict_do_nothing wx_pkey t1 staged2 = t1" by (rule option.inject [THEN iffD1])
  from ocdn_fixed_keys [OF this] have a: "wx_pkey ` set staged2 \<subseteq> wx_pkey ` set t1" .
  have k1: "wx_pkey ` set t1 = wx_pkey ` set rows \<union> wx_pkey ` set staged"
    unfolding e1 by (rule ocdn_keys)
  have k2: "wx_pkey ` set t2 = wx_pkey ` set rows \<union> wx_pkey ` set staged2"
    unfolding e2 by (rule ocdn_keys)
  from a show ?thesis unfolding k2 unfolding k1 by blast
qed

text \<open>
  Claim C6, as amended. The ingestion does not sort: it reads the files in the order of
  the directory listing. For two listings that hold the same files in different orders,
  reading and deduplicating the files succeeds on both or on neither and the
  deduplicated records have the same set of natural keys; and two ingestions that both
  succeed from the same table leave tables with the same set of natural keys. Which
  record stands for a key follows the listing order.
\<close>

theorem listing_order_keeps_keys:
  "(set (listdir e) = set (listdir e') \<and> read_csv e = read_csv e' \<longrightarrow>
      ((\<exists>df. concat_files e keys = Inr df) \<longleftrightarrow> (\<exists>df'. concat_files e' keys = Inr df'))
      \<and> (\<forall>df df'. concat_files e keys = Inr df \<and> concat_files e' keys = Inr df'
            \<longrightarrow> keys ` set df = keys ` set df'))
   \<and> (set (listdir w) = set (listdir w') \<and> read_csv w = read_csv w'
      \<and> ingest_data_wx w to_datetime fault db = (Some t1, Inr n1)
      \<and> ingest_data_wx w' to_datetime fault' db = (Some t2, Inr n2)
      \<longrightarrow> wx_pkey ` set t1 = wx_pkey ` set t2)
   \<and> (set (listdir y) = set (listdir y') \<and> read_csv y = read_csv y'
      \<and> ingest_data_yld y yfault ydb = (Some u1, Inr m1)
      \<and> ingest_data_yld y' yfault' ydb = (Some u2, Inr m2)
      \<longrightarrow> yld_pkey ` set u1 = yld_pkey ` set u2)"
proof (intro conjI impI allI)
  assume a: "set (listdir e) = set (listdir e') \<and> read_csv e = read_csv e'"
  then have 1: "set (listdir e) = set (listdir e')" and 2: "read_csv e = read_csv e'" by simp_all
  show "(\<exists>df. concat_files e keys = Inr df) \<longleftrightarrow> (\<exists>df'. concat_files e' keys = Inr df')"
    unfolding concat_files_succeeds same_files [OF 1 2] ..
  fix df df'
  assume "concat_files e keys = Inr df \<and> concat_files e' keys = Inr df'"
  then have c: "concat_files e keys = Inr df" and c': "concat_files e' keys = Inr df'" by simp_all
  show "keys ` set df = keys ` set df'"
    unfolding concat_files_keys [OF c] concat_files_keys [OF c'] same_files [OF 1 2] ..
next
  assume a: "set (listdir w) = set (listdir w') \<and> read_csv w = read_csv w'
      \<and> ingest_data_wx w to_datetime fault db = (Some t1, Inr n1)
      \<and> ingest_data_wx w' to_datetime fault' db = (Some t2, Inr n2)"
  then have 1: "set (listdir w') = set (listdir w)" and 2: "read_csv w' = read_csv w"
    and 3: "ingest_data_wx w to_datetime fault db = (Some t1, Inr n1)"
    and 4: "ingest_data_wx w' to_datetime fault' db = (Some t2, Inr n2)" by simp_all
  from wx_other_order_keys [OF 3 4 1 2] wx_other_order_keys [OF 4 3 1 [symmetric] 2 [symmetric]]
  show "wx_pkey ` set t1 = wx_pkey ` set t2" by blast
next
  assume a: "set (listdir y) = set (listdir y') \<and> read_csv y = read_csv y'
      \<and> ingest_data_yld y yfault ydb = (Some u1, Inr m1)
      \<and> ingest_data_yld y' yfault' ydb = (Some u2, Inr m2)"
  then have 1: "set (listdir y') = set (listdir y)" and 2: "read_csv y' = read_csv y"
    and 3: "ingest_data_yld y yfault ydb = (Some u1, Inr m1)"
    and 4: "ingest_data_yld y' yfault' ydb = (Some u2, Inr m2)" by simp_all
  from yld_other_order_keys [OF 3 4 1 2] yld_other_order_keys [OF 4 3 1 [symmetric] 2 [symmetric]]
  show "yld_pkey ` set u1 = yld_pkey ` set u2" by blast
qed

text \<open>Claim C6 as amended, at the two listings of the yield files.\<close>

theorem listing_order_keeps_keys_witness:
  "set (listdir listing_ab) = set (listdir listing_ba)
   \<and> read_csv listing_ab = read_csv listing_ba
   \<and> concat_files listing_ab yld_keys = Inr [(\<lparr>YEAR = 2000, TOTAL_CORN_GRAIN_YIELD_MT = 1\<rparr>, ''a'')]
   \<and> concat_files listing_ba yld_keys = Inr [(\<lparr>YEAR = 2000, TOTAL_CORN_GRAIN_YIELD_MT = 2\<rparr>, ''b'')]
   \<and> yld_keys ` set [(\<lparr>YEAR = 2000, TOTAL_CORN_GRAIN_YIELD_MT = 1\<rparr>, ''a'')]
     = yld_keys ` set [(\<lparr>YEAR = 2000, TOTAL_CORN_GRAIN_YIELD_MT = 2\<rparr>, ''b'')]
   \<and> ingest_data_yld listing_ab None None
       = (Some [\<lparr>year = 2000, total_corn_grain_yield_mt = Some 1\<rparr>], Inr 1)
   \<and> ingest_data_yld listing_ba None None
       = (Some [\<lparr>year = 2000, total_corn_grain_yield_mt = Some 2\<rparr>], Inr 1)
   \<and> yld_pkey ` set [\<lparr>year = 2000, total_corn_grain_yield_mt = Some 1\<rparr>]
     = yld_pkey ` set [\<lparr>year = 2000, total_corn_grain_yield_mt = Some 2\<rparr>]
   \<and> ingest_data_wx one_station ymd None None = (Some wx_1985, Inr 3)
   \<and> wx_pkey ` set wx_1985 = wx_pkey ` set wx_1985"
proof -
  from same_listing have 1: "set (listdir listing_ab) = set (listdir listing_ba)"
    and 2: "read_csv listing_ab = read_csv listing_ba" by simp_all
  note t = listing_order_keeps_keys [where e = listing_ab and e' = listing_ba and keys = yld_keys
      and y = listing_ab and y' = listing_ba and yfault = None and yfault' = None and ydb = None
      and ?u1.0 = "[\<lparr>year = 2000, total_corn_grain_yield_mt = Some 1\<rparr>]" and ?m1.0 = 1
      and ?u2.0 = "[\<lparr>year = 2000, total_corn_grain_yield_mt = Some 2\<rparr>]" and ?m2.0 = 1
      and w = one_station and w' = one_station and to_datetime = ymd and fault = None
      and fault' = None and db = None and ?t1.0 = wx_1985 and ?t2.0 = wx_1985
      and ?n1.0 = 3 and ?n2.0 = 3]
  note ta = t [THEN conjunct1, rule_format, OF conjI [OF 1 2], THEN conjunct2, rule_format,
      OF conjI [OF concat_ab concat_ba]]
  note tb = t [THEN conjunct2, THEN conjunct2, rule_format,
      OF conjI [OF 1 conjI [OF 2 conjI [OF yld_first_run yld_first_run_ba]]]]
  note tc = t [THEN conjunct2, THEN conjunct1, rule_format,
      OF conjI [OF refl conjI [OF refl conjI [OF wx_first_run wx_first_run]]]]
  from 1 2 concat_ab concat_ba ta yld_first_run yld_first_run_ba tb wx_first_run tc
  show ?thesis by (intro conjI)
qed

section \<open>A file that cannot be read\<close>

text \<open>
  The ingestion has no handler around \<open>pd.read_csv\<close>: when it raises for one of the
  \<open>.txt\<close> files, whatever the reason, the run ends with an exception before the table is
  created or written, and the table is what it was. Which lines make \<open>read_csv\<close> raise
  is decided by pandas, not by this program.
\<close>

lemma read_error_no_frame:
  assumes "file \<in> set (file_list env)" and "read_csv env file = Inl e"
  shows "\<exists>e'. concat_files env keys = Inl e'"
proof (cases "concat_files env keys")
  case (Inl e')
  then show ?thesis by (rule exI)
next
  case (Inr df)
  then have "\<exists>df. concat_files env keys = Inr df" by (rule exI)
  then have "\<forall>f\<in>set (file_list env). \<exists>d. ingest_data_helper env f = Inr d"
    unfolding concat_files_succeeds by simp
  with assms(1) obtain d where "ingest_data_helper env file = Inr d" by blast
  with assms(2) show ?thesis by (simp add: ingest_data_helper_def)
qed

lemma read_error_aborts:
  assumes "file \<in> set (file_list env)" and "read_csv env file = Inl e"
  shows "\<exists>e'. ingest_data_wx env to_datetime fault db = (db, Inl e')"
proof -
  from read_error_no_frame [OF assms] obtain e' where "concat_files env wx_keys = Inl e'"
    by blast
  then have "ingest_data_wx env to_datetime fault db = (db, Inl e')"
    by (simp add: ingest_data_wx_def)
  then show ?thesis by (rule exI)
qed

lemma read_error_aborts_yld:
  assumes "file \<in> set (file_list env)" and "read_csv env file = Inl e"
  shows "\<exists>e'. ingest_data_yld env fault db = (db, Inl e')"
proof -
  from read_error_no_frame [OF assms] obtain e' where "concat_files env yld_keys = Inl e'"
    by blast
  then have "ingest_data_yld env fault db = (db, Inl e')"
    by (simp add: ingest_data_yld_def)
  then show ?thesis by (rule exI)
qed

end
